theory Spec2Isabelle
  imports Complex_Main "HOL-Library.Log_Nat"
begin

section \<open>License keys, prices and moderator debt: the server actions of \<open>actions.ts\<close>\<close>

text \<open>
  The server actions work on three MongoDB collections (\<open>keys\<close>, \<open>users\<close>, \<open>prices\<close>).
  A collection is a list of documents in insertion order; \<open>findOne\<close>, \<open>updateOne\<close> and
  \<open>deleteOne\<close> act on the first document that matches the filter, \<open>deleteMany\<close> on all
  of them.

  Conventions of the embedding.
  \<^item> The time value of a JavaScript \<open>Date\<close> is an \<open>int\<close>: milliseconds since
    1970-01-01T00:00:00Z. The value returned by \<open>getMoscowTime\<close> (the time service, or
    the server clock when the service fails) is the parameter \<open>now\<close> of the actions that
    read the clock. \<open>activateKey\<close> takes the time value of a valid date (on an invalid
    one \<open>formatISO\<close> throws); \<open>verifyKey\<close> takes a \<open>jsdate\<close>, which is a time value or
    the \<open>Invalid Date\<close> that the time service's reply can produce.
  \<^item> A date-only ISO string \<open>YYYY-MM-DD\<close> is an \<open>isodate\<close>: the number of the calendar
    day, counted from 1970-01-01 (2025-01-01 is day 20089). This covers the years 0000 to
    9999, where \<open>formatISO\<close> prints the string that the \<open>Date\<close> constructor reads back.
  \<^item> The server's local time zone is a fixed offset \<open>tz\<close> in minutes east of UTC
    (\<open>formatISO\<close> and \<open>addDays\<close> of date-fns work in local time); changes of the
    offset during the year are not modelled.
  \<^item> A JavaScript number holding a price, a debt, a count or a tier is a \<open>number\<close>: an
    IEEE double, with its rounding, its infinities and \<open>NaN\<close>. The validity of a key in
    days and the day numbers are \<open>int\<close>.
  \<^item> An \<open>ObjectId\<close> is the string of its hexadecimal digits; the actions receive
    well-formed ids.
  \<^item> A store call answers, except the \<open>insertMany\<close> of \<open>generateKeys\<close> and the store
    calls inside the \<open>try\<close> block of \<open>updateAllPrices\<close>, whose failures are part of the
    model.
\<close>

subsection \<open>Numbers\<close>

text \<open>
  A finite double is the rational it stands for (the two zeros are one value: no action
  here tells them apart). \<open>round_to_double\<close> is the rounding of IEEE 754 binary64 to the
  nearest double, ties to even: a significand of 53 bits, exponents from \<open>-1022\<close> to
  \<open>1023\<close>, gradual underflow below, an infinity from \<open>2^1024\<close> on. \<open>ilog2 a\<close> is the
  exponent \<open>e\<close> with \<open>2^e \<le> a < 2^(e+1)\<close> of a positive \<open>a\<close>.
\<close>

datatype number = NaN | PosInf | NegInf | Num rat

definition ilog2 :: "rat \<Rightarrow> int" where
  "ilog2 a =
     (let (p, q) = quotient_of a;
          d = bitlen p - bitlen q
      in if power_int 2 d \<le> a then d else d - 1)"

definition round_half_even :: "rat \<Rightarrow> int" where
  "round_half_even x =
     (let f = \<lfloor>x\<rfloor>; d = x - of_int f
      in if d < 1 / 2 then f else if 1 / 2 < d then f + 1 else if even f then f else f + 1)"

definition round_to_double :: "rat \<Rightarrow> number" where
  "round_to_double x =
     (if x = 0 then Num 0
      else (let a = \<bar>x\<bar>;
                e = ilog2 a;
                q = max e (- 1022) - 52;
                r = of_int (round_half_even (a / power_int 2 q)) * power_int 2 q
            in if power_int 2 1024 \<le> r then (if 0 < x then PosInf else NegInf)
               else Num (if 0 < x then r else - r)))"

text \<open>The product \<open>a * b\<close> and the sum \<open>a + b\<close> of two numbers, and \<open>a < b\<close>.\<close>

fun js_mul :: "number \<Rightarrow> number \<Rightarrow> number" where
  "js_mul NaN b = NaN"
| "js_mul a NaN = NaN"
| "js_mul (Num x) (Num y) = round_to_double (x * y)"
| "js_mul (Num x) PosInf = (if x = 0 then NaN else if 0 < x then PosInf else NegInf)"
| "js_mul (Num x) NegInf = (if x = 0 then NaN else if 0 < x then NegInf else PosInf)"
| "js_mul PosInf (Num y) = (if y = 0 then NaN else if 0 < y then PosInf else NegInf)"
| "js_mul NegInf (Num y) = (if y = 0 then NaN else if 0 < y then NegInf else PosInf)"
| "js_mul PosInf PosInf = PosInf"
| "js_mul PosInf NegInf = NegInf"
| "js_mul NegInf PosInf = NegInf"
| "js_mul NegInf NegInf = PosInf"

fun js_add :: "number \<Rightarrow> number \<Rightarrow> number" where
  "js_add NaN b = NaN"
| "js_add a NaN = NaN"
| "js_add (Num x) (Num y) = round_to_double (x + y)"
| "js_add PosInf NegInf = NaN"
| "js_add NegInf PosInf = NaN"
| "js_add PosInf b = PosInf"
| "js_add NegInf b = NegInf"
| "js_add a PosInf = PosInf"
| "js_add a NegInf = NegInf"

fun js_less :: "number \<Rightarrow> number \<Rightarrow> bool" where
  "js_less NaN b = False"
| "js_less a NaN = False"
| "js_less (Num x) (Num y) = (x < y)"
| "js_less a NegInf = False"
| "js_less PosInf b = False"
| "js_less NegInf b = True"
| "js_less a PosInf = True"

definition isNaN :: "number \<Rightarrow> bool" where
  "isNaN a = (a = NaN)"

subsection \<open>Collections\<close>

record update_result =
  matchedCount :: nat
  modifiedCount :: nat

definition findOne :: "('a \<Rightarrow> bool) \<Rightarrow> 'a list \<Rightarrow> 'a option" where
  "findOne flt coll = find flt coll"

fun update_first :: "('a \<Rightarrow> bool) \<Rightarrow> ('a \<Rightarrow> 'a) \<Rightarrow> 'a list \<Rightarrow> 'a list" where
  "update_first flt upd [] = []"
| "update_first flt upd (d # ds) =
     (if flt d then upd d # ds else d # update_first flt upd ds)"

text \<open>
  \<open>updateOne\<close> without upsert. \<open>matchedCount\<close> counts the document the filter selected,
  \<open>modifiedCount\<close> counts it only when the update changed it: an update that leaves the
  document as it was is reported with \<open>modifiedCount = 0\<close>.
\<close>

definition updateOne ::
  "('a \<Rightarrow> bool) \<Rightarrow> ('a \<Rightarrow> 'a) \<Rightarrow> 'a list \<Rightarrow> 'a list \<times> update_result" where
  "updateOne flt upd coll =
     (case findOne flt coll of
        None \<Rightarrow> (coll, \<lparr>matchedCount = 0, modifiedCount = 0\<rparr>)
      | Some d \<Rightarrow>
          (update_first flt upd coll,
           \<lparr>matchedCount = 1, modifiedCount = (if upd d = d then 0 else 1)\<rparr>))"

fun remove_first :: "('a \<Rightarrow> bool) \<Rightarrow> 'a list \<Rightarrow> 'a list" where
  "remove_first flt [] = []"
| "remove_first flt (d # ds) = (if flt d then ds else d # remove_first flt ds)"

text \<open>\<open>deleteOne\<close> and \<open>deleteMany\<close> return the collection and \<open>deletedCount\<close>.\<close>

definition deleteOne :: "('a \<Rightarrow> bool) \<Rightarrow> 'a list \<Rightarrow> 'a list \<times> nat" where
  "deleteOne flt coll =
     (remove_first flt coll, (case findOne flt coll of None \<Rightarrow> 0 | Some _ \<Rightarrow> 1))"

definition deleteMany :: "('a \<Rightarrow> bool) \<Rightarrow> 'a list \<Rightarrow> 'a list \<times> nat" where
  "deleteMany flt coll = (filter (\<lambda>d. \<not> flt d) coll, length (filter flt coll))"

datatype error = StorageError | EmptyBatch | RangeError

text \<open>
  \<open>insertMany\<close> appends the batch. The driver rejects an empty batch (the reason why
  \<open>updateAllPrices\<close> guards its \<open>bulkWrite\<close> with \<open>operations.length > 0\<close>), and the
  store may fail: \<open>reachable\<close> says whether this call gets through.
\<close>

definition insertMany :: "bool \<Rightarrow> 'a list \<Rightarrow> 'a list \<Rightarrow> error + 'a list" where
  "insertMany reachable docs coll =
     (if docs = [] then Inl EmptyBatch
      else if \<not> reachable then Inl StorageError
      else Inr (coll @ docs))"

subsection \<open>Dates\<close>

datatype isodate = ISODate int

text \<open>\<open>formatISO(t, { representation: 'date' })\<close>: the local calendar day of \<open>t\<close>.\<close>

definition formatISO_date :: "int \<Rightarrow> int \<Rightarrow> isodate" where
  "formatISO_date tz t = ISODate ((t + tz * 60000) div 86400000)"

definition addDays :: "int \<Rightarrow> int \<Rightarrow> int" where
  "addDays t amount = t + amount * 86400000"

datatype jsdate = Invalid_Date | Date int

text \<open>\<open>new Date("YYYY-MM-DD")\<close>: a date-only string is read as midnight UTC of that day.\<close>

fun new_Date :: "isodate \<Rightarrow> jsdate" where
  "new_Date (ISODate d) = Date (d * 86400000)"

text \<open>
  \<open>a > b\<close> on two dates compares their time values; the time value of an invalid date
  is \<open>NaN\<close>, and a comparison with \<open>NaN\<close> is false.
\<close>

fun date_greater :: "jsdate \<Rightarrow> jsdate \<Rightarrow> bool" where
  "date_greater (Date a) (Date b) = (a > b)"
| "date_greater _ _ = False"

fun plus_days :: "isodate \<Rightarrow> int \<Rightarrow> isodate" where
  "plus_days (ISODate d) n = ISODate (d + n)"

subsection \<open>Documents\<close>

type_synonym oid = string

datatype user_role = admin | moderator

record user =
  loggedIn :: bool
  role :: user_role
  username :: string
  userId :: "oid option"

record key_doc =
  k_key :: string
  k_prefix :: string
  k_validityDays :: int
  k_price :: number
  k_expires :: "isodate option"
  k_activationDate :: "isodate option"
  k_isActive :: bool
  k_createdAt :: int
  k_createdBy :: string

record user_doc =
  u_id :: oid
  u_username :: string
  u_password :: string
  u_role :: user_role
  u_debt :: number
  u_createdAt :: int

record price_doc =
  p_validityDays :: number
  p_price :: number

record db =
  keys :: "key_doc list"
  users :: "user_doc list"
  prices :: "price_doc list"

subsection \<open>Replies\<close>

record reply =
  success :: bool
  message :: string

record activate_reply = reply +
  expires :: "isodate option"

record verify_reply =
  valid :: bool
  v_message :: string
  v_expires :: "isodate option"

record generated_key =
  g_key :: string
  g_validityDays :: int
  g_price :: number

text \<open>The decimal digits of a count, as a template literal prints it.\<close>

fun string_of_nat :: "nat \<Rightarrow> string" where
  "string_of_nat n =
     (if n < 10 then [''0123456789'' ! n]
      else string_of_nat (n div 10) @ [''0123456789'' ! (n mod 10)])"

declare string_of_nat.simps [simp del]

subsection \<open>Moderator management\<close>

definition deleteModerator :: "oid \<Rightarrow> db \<Rightarrow> db \<times> reply" where
  "deleteModerator ident s =
     (case findOne (\<lambda>u. u_id u = ident) (users s) of
        None \<Rightarrow> (s, \<lparr>success = False, message = ''Moderator not found.''\<rparr>)
      | Some moderatorToDelete \<Rightarrow>
          (let keys' = fst (deleteMany (\<lambda>k. k_createdBy k = u_username moderatorToDelete) (keys s));
               (users', deletedCount) = deleteOne (\<lambda>u. u_id u = ident) (users s);
               s' = s\<lparr>keys := keys', users := users'\<rparr>
           in if deletedCount = 1
              then (s', \<lparr>success = True,
                         message = ''Moderator '' @ [CHR 0x22] @ u_username moderatorToDelete @ [CHR 0x22]
                                   @ '' and all their keys have been deleted.''\<rparr>)
              else (s', \<lparr>success = False,
                         message = ''Failed to delete moderator after cleaning up keys.''\<rparr>)))"

definition clearModeratorDebt :: "oid \<Rightarrow> db \<Rightarrow> db \<times> reply" where
  "clearModeratorDebt ident s =
     (let (users', result) = updateOne (\<lambda>u. u_id u = ident) (\<lambda>u. u\<lparr>u_debt := Num 0\<rparr>) (users s)
      in if modifiedCount result = 1
         then (s\<lparr>users := users'\<rparr>, \<lparr>success = True, message = ''Debt cleared successfully.''\<rparr>)
         else (s\<lparr>users := users'\<rparr>, \<lparr>success = False, message = ''Failed to clear debt.''\<rparr>))"

subsection \<open>Price management\<close>

text \<open>
  \<open>updateOne\<close> with \<open>upsert: true\<close>, filter \<open>{ validityDays }\<close> and update
  \<open>{ $set: { price } }\<close>: the first tier document with that validity gets the price, and
  when there is none a document with the two fields is inserted.
\<close>

record price_operation =
  op_validityDays :: number
  op_price :: number

definition upsert_price :: "price_operation \<Rightarrow> price_doc list \<Rightarrow> price_doc list" where
  "upsert_price oper coll =
     (case findOne (\<lambda>p. p_validityDays p = op_validityDays oper) coll of
        None \<Rightarrow> coll @ [\<lparr>p_validityDays = op_validityDays oper, p_price = op_price oper\<rparr>]
      | Some _ \<Rightarrow>
          update_first (\<lambda>p. p_validityDays p = op_validityDays oper)
            (\<lambda>p. p\<lparr>p_price := op_price oper\<rparr>) coll)"

text \<open>
  What becomes of the store calls in the \<open>try\<close> block of \<open>updateAllPrices\<close>: they
  answer; or there is no connection and \<open>getPricesCollection\<close> throws; or the
  \<open>bulkWrite\<close>, if it is reached, throws when the store has applied \<open>k\<close> operations of the
  batch.
\<close>

datatype store_fate = Answers | Unconnected | Fails nat

text \<open>
  An ordered \<open>bulkWrite\<close> runs its operations one after the other and stops at the first
  failure; what it has applied stays. The result is the collection and whether the call
  threw.
\<close>

definition bulkWrite ::
  "store_fate \<Rightarrow> price_operation list \<Rightarrow> price_doc list \<Rightarrow> price_doc list \<times> bool" where
  "bulkWrite fate operations coll =
     (case fate of
        Answers \<Rightarrow> (fold upsert_price operations coll, False)
      | Unconnected \<Rightarrow> (coll, True)
      | Fails k \<Rightarrow> (fold upsert_price (take k operations) coll, True))"

text \<open>\<open>s.split(c)\<close>: the pieces of \<open>s\<close> between the occurrences of \<open>c\<close>.\<close>

fun split :: "char \<Rightarrow> string \<Rightarrow> string list" where
  "split c [] = [[]]"
| "split c (x # xs) =
     (if x = c then [] # split c xs
      else (case split c xs of [] \<Rightarrow> [[x]] | piece # pieces \<Rightarrow> (x # piece) # pieces))"

definition startsWith :: "string \<Rightarrow> string \<Rightarrow> bool" where
  "startsWith s p = (take (length p) s = p)"

text \<open>
  The loop over the form entries. \<open>parseInt\<close> (radix 10) and \<open>parseFloat\<close> are the
  JavaScript built-ins, taken as parameters: functions from strings to numbers. An entry
  whose key has no second piece gives \<open>parseInt(undefined)\<close>, which is \<open>NaN\<close>.
\<close>

fun collect_operations ::
  "(string \<Rightarrow> number) \<Rightarrow> (string \<Rightarrow> number) \<Rightarrow> (string \<times> string) list
     \<Rightarrow> price_operation list \<Rightarrow> price_operation list" where
  "collect_operations parseInt parseFloat [] operations = operations"
| "collect_operations parseInt parseFloat ((key, val) # entries) operations =
     (if startsWith key ''price-''
      then (let validityDays = (case split CHR ''-'' key of _ # piece # _ \<Rightarrow> parseInt piece | _ \<Rightarrow> NaN);
                price = parseFloat val
            in if isNaN validityDays \<or> isNaN price \<or> js_less price (Num 0)
               then collect_operations parseInt parseFloat entries operations
               else collect_operations parseInt parseFloat entries
                      (operations @ [\<lparr>op_validityDays = validityDays, op_price = price\<rparr>]))
      else collect_operations parseInt parseFloat entries operations)"

text \<open>
  The \<open>try\<close> block and its \<open>catch\<close>: a throw of \<open>getPricesCollection\<close> or of
  \<open>bulkWrite\<close> is answered with the reply of the \<open>catch\<close> branch.
\<close>

definition updateAllPrices ::
  "(string \<Rightarrow> number) \<Rightarrow> (string \<Rightarrow> number) \<Rightarrow> store_fate \<Rightarrow> (string \<times> string) list \<Rightarrow> db
     \<Rightarrow> db \<times> reply" where
  "updateAllPrices parseInt parseFloat fate formData s =
     (if fate = Unconnected
      then (s, \<lparr>success = False, message = ''Database error while updating prices.''\<rparr>)
      else (let operations = collect_operations parseInt parseFloat formData []
            in if length operations > 0
               then (case bulkWrite fate operations (prices s) of
                       (prices', True) \<Rightarrow>
                         (s\<lparr>prices := prices'\<rparr>,
                          \<lparr>success = False, message = ''Database error while updating prices.''\<rparr>)
                     | (prices', False) \<Rightarrow>
                         (s\<lparr>prices := prices'\<rparr>,
                          \<lparr>success = True, message = ''Prices updated successfully.''\<rparr>))
               else (s, \<lparr>success = True, message = ''Prices updated successfully.''\<rparr>)))"

subsection \<open>Key management\<close>

text \<open>
  The loop \<open>for (let i = 0; i < count; i++)\<close> runs once for every natural number below
  \<open>count\<close>: not at all when \<open>count\<close> is \<open>NaN\<close> or at most 0, and three times for 2.5.
  Every round pushes onto the two arrays, and an array holds at most \<open>2^32 - 1\<close>
  elements: for a larger or an infinite count the loop does not come to its end (it stops
  with the \<open>RangeError\<close> of \<open>push\<close>, unless the memory has run out before), which is
  \<open>None\<close> here.
\<close>

definition loop_count :: "number \<Rightarrow> nat option" where
  "loop_count count =
     (case count of
        NaN \<Rightarrow> Some 0
      | NegInf \<Rightarrow> Some 0
      | PosInf \<Rightarrow> None
      | Num c \<Rightarrow> if 4294967295 < \<lceil>c\<rceil> then None else Some (nat \<lceil>c\<rceil>))"

text \<open>
  \<open>rnd i\<close> is the upper-case hexadecimal text of the 16 random bytes drawn in iteration
  \<open>i\<close>, \<open>clock i\<close> the server time read there, \<open>reachable\<close> the fate of the final
  \<open>insertMany\<close>. The debt increment is an \<open>updateOne\<close> with \<open>$inc\<close>, the sum of the
  stored debt and \<open>totalCost\<close> as doubles (the store adds two integers exactly, which is
  the same sum below \<open>2^53\<close>); the test \<open>if (user.userId)\<close> fails for a missing and for
  an empty \<open>userId\<close>. \<open>validityDays\<close> is an integer, as on the key records.
\<close>

definition generateKeys ::
  "(nat \<Rightarrow> string) \<Rightarrow> (nat \<Rightarrow> int) \<Rightarrow> bool \<Rightarrow> string \<Rightarrow> number \<Rightarrow> int \<Rightarrow> user \<Rightarrow> db
     \<Rightarrow> db \<times> (error + generated_key list)" where
  "generateKeys rnd clock reachable pfx count validityDays usr s =
     (let (price, users') =
            (if role usr = moderator
             then (let priceDoc = findOne (\<lambda>p. p_validityDays p = Num (of_int validityDays)) (prices s);
                       price = (case priceDoc of Some d \<Rightarrow> p_price d | None \<Rightarrow> Num 0);
                       totalCost = js_mul count price
                   in (price,
                       (case userId usr of
                          Some uid \<Rightarrow>
                            if uid = [] then users s
                            else fst (updateOne (\<lambda>u. u_id u = uid)
                                        (\<lambda>u. u\<lparr>u_debt := js_add (u_debt u) totalCost\<rparr>) (users s))
                        | None \<Rightarrow> users s)))
             else (Num 0, users s))
      in (case loop_count count of
            None \<Rightarrow> (s\<lparr>users := users'\<rparr>, Inl RangeError)
          | Some n \<Rightarrow>
              (let keysToInsert =
                     map (\<lambda>i. \<lparr>k_key = pfx @ ''-'' @ rnd i, k_prefix = pfx,
                               k_validityDays = validityDays,
                               k_price = (if role usr = moderator then price else Num 0),
                               k_expires = None, k_activationDate = None, k_isActive = False,
                               k_createdAt = clock i, k_createdBy = username usr\<rparr>) [0..<n];
                   newKeysForFile =
                     map (\<lambda>i. \<lparr>g_key = pfx @ ''-'' @ rnd i, g_validityDays = validityDays,
                               g_price = (if role usr = moderator then price else Num 0)\<rparr>) [0..<n]
               in (case insertMany reachable keysToInsert (keys s) of
                     Inl e \<Rightarrow> (s\<lparr>users := users'\<rparr>, Inl e)
                   | Inr keys' \<Rightarrow> (s\<lparr>users := users', keys := keys'\<rparr>, Inr newKeysForFile)))))"

definition deleteKeysByPrefix :: "string \<Rightarrow> db \<Rightarrow> db \<times> reply" where
  "deleteKeysByPrefix pfx s =
     (let (keys', deletedCount) = deleteMany (\<lambda>k. k_prefix k = pfx) (keys s)
      in (s\<lparr>keys := keys'\<rparr>,
          \<lparr>success = True,
           message = string_of_nat deletedCount @ '' keys with prefix '' @ [CHR 0x22] @ pfx
                     @ [CHR 0x22] @ '' deleted.''\<rparr>))"

subsection \<open>Activation and verification\<close>

text \<open>
  \<open>activateKey\<close> makes two store calls with awaits between them: the \<open>findOne\<close> with the
  checks on what it read, and, after the clock has been read, the \<open>updateOne\<close> whose
  filter is the key string alone. Each is one function here, and \<open>activateKey\<close> is the
  two run back to back.
\<close>

definition activateKey_find :: "string \<Rightarrow> db \<Rightarrow> activate_reply + key_doc" where
  "activateKey_find key s =
     (case findOne (\<lambda>k. k_key k = key) (keys s) of
        None \<Rightarrow> Inl \<lparr>success = False, message = ''Key not found.'', expires = None\<rparr>
      | Some keyData \<Rightarrow>
          if k_isActive keyData
          then Inl \<lparr>success = False, message = ''Key already activated.'', expires = None\<rparr>
          else Inr keyData)"

definition activateKey_update :: "int \<Rightarrow> int \<Rightarrow> string \<Rightarrow> key_doc \<Rightarrow> db \<Rightarrow> db \<times> activate_reply" where
  "activateKey_update tz now key keyData s =
     (let activationDateStr = formatISO_date tz now;
          validity = (if k_validityDays keyData \<ge> 36500 then 36500 else k_validityDays keyData);
          expirationDate = addDays now validity;
          expiresStr = formatISO_date tz expirationDate;
          keys' = fst (updateOne (\<lambda>k. k_key k = key)
                         (\<lambda>k. k\<lparr>k_isActive := True,
                                 k_activationDate := Some activationDateStr,
                                 k_expires := Some expiresStr\<rparr>) (keys s))
      in (s\<lparr>keys := keys'\<rparr>,
          \<lparr>success = True, message = ''Key activated successfully.'', expires = Some expiresStr\<rparr>))"

definition activateKey :: "int \<Rightarrow> int \<Rightarrow> string \<Rightarrow> db \<Rightarrow> db \<times> activate_reply" where
  "activateKey tz now key s =
     (case activateKey_find key s of
        Inl failure \<Rightarrow> (s, failure)
      | Inr keyData \<Rightarrow> activateKey_update tz now key keyData s)"

definition verifyKey :: "jsdate \<Rightarrow> string \<Rightarrow> db \<Rightarrow> verify_reply" where
  "verifyKey now key s =
     (case findOne (\<lambda>k. k_key k = key) (keys s) of
        None \<Rightarrow> \<lparr>valid = False, v_message = ''Key not found.'', v_expires = None\<rparr>
      | Some keyData \<Rightarrow>
          (case (k_isActive keyData, k_expires keyData) of
             (True, Some expiry) \<Rightarrow>
               (let expirationDate = new_Date expiry
                in if date_greater now expirationDate
                   then \<lparr>valid = False, v_message = ''Key has expired.'', v_expires = None\<rparr>
                   else \<lparr>valid = True, v_message = ''Key is active.'', v_expires = k_expires keyData\<rparr>)
           | _ \<Rightarrow> \<lparr>valid = False, v_message = ''Key not activated.'', v_expires = None\<rparr>))"

subsection \<open>The entries of a price form, as the specification reads them\<close>

text \<open>
  The specification's \<open>upsertPrices\<close> applies the pairs with a tier and a price that
  are numbers, the price not below 0, and skips the others. \<open>valid_price_entry\<close> says which operation, if any, one
  form entry stands for; it is compared with the loop of \<open>updateAllPrices\<close> below.
\<close>

definition valid_price_entry ::
  "(string \<Rightarrow> number) \<Rightarrow> (string \<Rightarrow> number) \<Rightarrow> string \<times> string \<Rightarrow> price_operation option" where
  "valid_price_entry parseInt parseFloat entry =
     (case entry of (key, val) \<Rightarrow>
        if startsWith key ''price-''
        then (let v = (case split CHR ''-'' key of _ # piece # _ \<Rightarrow> parseInt piece | _ \<Rightarrow> NaN);
                  p = parseFloat val
              in if v \<noteq> NaN \<and> p \<noteq> NaN \<and> \<not> js_less p (Num 0)
                 then Some \<lparr>op_validityDays = v, op_price = p\<rparr>
                 else None)
        else None)"

subsection \<open>Two activations of one key, interleaved\<close>

text \<open>
  Calls \<open>A\<close> and \<open>B\<close> of \<open>activateKey\<close> on the same key, scheduled so that both
  \<open>findOne\<close> calls are answered before either \<open>updateOne\<close> is sent. Each call awaits
  the store and the time service between its two store calls, so the schedule is one the
  server can run. The result is the final store with the reply to \<open>A\<close> and the reply
  to \<open>B\<close>.
\<close>

definition activateKey_interleaved ::
  "int \<Rightarrow> int \<Rightarrow> int \<Rightarrow> string \<Rightarrow> db \<Rightarrow> db \<times> activate_reply \<times> activate_reply" where
  "activateKey_interleaved tz nowA nowB key s =
     (let readA = activateKey_find key s;
          readB = activateKey_find key s;
          (s1, repA) = (case readA of Inl failure \<Rightarrow> (s, failure)
                        | Inr keyData \<Rightarrow> activateKey_update tz nowA key keyData s);
          (s2, repB) = (case readB of Inl failure \<Rightarrow> (s1, failure)
                        | Inr keyData \<Rightarrow> activateKey_update tz nowB key keyData s1)
      in (s2, repA, repB))"

subsection \<open>Concrete data for the evaluated examples\<close>

text \<open>
  The trial key of the specification's example (7 days, activated on 2025-01-01, day
  20089, so that it expires on 2025-01-08, day 20096), two moderators, a price table with
  the 30-day tier at 2.50, a random source and a clock.
  \<open>sample_parseInt\<close> and \<open>sample_parseFloat\<close> read what \<open>parseInt\<close> and
  \<open>parseFloat\<close> read on a short string of decimal digits (with a minus sign in front,
  for \<open>parseFloat\<close>) and are \<open>NaN\<close> on a string with no leading digit such as \<open>abc\<close>;
  the examples use no other input. \<open>tenth\<close> is the double that \<open>0.1\<close> denotes.
\<close>

definition sample_rnd :: "nat \<Rightarrow> string" where
  "sample_rnd i = ''00112233445566778899AABBCCDDEE'' @ string_of_nat (10 + i mod 90)"

definition sample_clock :: "nat \<Rightarrow> int" where
  "sample_clock i = 1735725600000 + int i"

definition digits_value :: "string \<Rightarrow> nat option" where
  "digits_value s =
     (if s \<noteq> [] \<and> list_all (\<lambda>c. c \<in> set ''0123456789'') s
      then Some (foldl (\<lambda>n c. 10 * n + (of_char c - 48)) 0 s)
      else None)"

definition sample_parseInt :: "string \<Rightarrow> number" where
  "sample_parseInt s = (case digits_value s of None \<Rightarrow> NaN | Some n \<Rightarrow> Num (of_nat n))"

definition sample_parseFloat :: "string \<Rightarrow> number" where
  "sample_parseFloat s =
     (case s of
        CHR ''-'' # r \<Rightarrow> (case digits_value r of None \<Rightarrow> NaN | Some n \<Rightarrow> Num (- of_nat n))
      | _ \<Rightarrow> (case digits_value s of None \<Rightarrow> NaN | Some n \<Rightarrow> Num (of_nat n)))"

definition tenth :: number where
  "tenth = Num (3602879701896397 / 36028797018963968)"

definition trial_key :: key_doc where
  "trial_key = \<lparr>k_key = ''TRIAL-00112233445566778899AABBCCDDEE10'', k_prefix = ''TRIAL'',
      k_validityDays = 7, k_price = Num 0, k_expires = None, k_activationDate = None,
      k_isActive = False, k_createdAt = 1735725600000, k_createdBy = ''admin''\<rparr>"

definition trial_key_activated :: key_doc where
  "trial_key_activated = trial_key\<lparr>k_isActive := True,
      k_activationDate := Some (ISODate 20089), k_expires := Some (ISODate 20096)\<rparr>"

definition bob :: user_doc where
  "bob = \<lparr>u_id = ''64b7f0c2a1d3e4f5a6b7c8d9'', u_username = ''bob'', u_password = ''$2a$10$'',
      u_role = moderator, u_debt = Num 0, u_createdAt = 1735725600000\<rparr>"

definition alice :: user_doc where
  "alice = \<lparr>u_id = ''64b7f0c2a1d3e4f5a6b7c8da'', u_username = ''alice'', u_password = ''$2a$10$'',
      u_role = moderator, u_debt = Num 4, u_createdAt = 1735725600001\<rparr>"

definition sample_db :: db where
  "sample_db = \<lparr>keys = [trial_key], users = [bob],
      prices = [\<lparr>p_validityDays = Num 30, p_price = Num (5 / 2)\<rparr>]\<rparr>"

definition prefix_db :: db where
  "prefix_db = \<lparr>keys = [trial_key\<lparr>k_key := ''ABC-01'', k_prefix := ''ABC'', k_createdBy := ''bob''\<rparr>,
                        trial_key\<lparr>k_key := ''ABCD-02'', k_prefix := ''ABCD'', k_createdBy := ''alice''\<rparr>,
                        trial_key\<lparr>k_key := ''AB-03'', k_prefix := ''AB'', k_createdBy := ''bob''\<rparr>,
                        trial_key\<lparr>k_key := ''ABC-04'', k_prefix := ''ABC''\<rparr>],
                users = [bob, alice], prices = []\<rparr>"

section \<open>Numbers: the exponent and the rounding\<close>

lemma power_int_2_pos: "0 < power_int (2::rat) n"
  by (simp add: power_int_def)

lemma power_int_2_strict_mono: "m < n \<Longrightarrow> power_int (2::rat) m < power_int 2 n"
  by (rule power_int_strict_increasing) simp_all

lemma power_int_2_less_cancel: "power_int (2::rat) m < power_int 2 n \<Longrightarrow> m < n"
  by (metis linorder_not_less power_int_2_strict_mono order_less_imp_not_less less_le)

lemma ilog2_range:
  assumes "0 < a"
  shows "power_int 2 (ilog2 a) \<le> a \<and> a < power_int 2 (ilog2 a + 1)"
proof -
  obtain p q where pq: "quotient_of a = (p, q)" by (cases "quotient_of a")
  have q: "0 < q" using pq by (rule quotient_of_denom_pos)
  have a: "a = of_int p / of_int q" using pq by (rule quotient_of_div)
  have p: "0 < p" using assms a q by (simp add: zero_less_divide_iff)
  let ?bp = "bitlen p" and ?bq = "bitlen q"
  have bp1: "1 \<le> ?bp" and bq1: "1 \<le> ?bq"
    using p q bitlen_eq_zero_iff [of p] bitlen_eq_zero_iff [of q] bitlen_nonneg [of p] bitlen_nonneg [of q]
    by linarith+
  have P: "2 ^ nat (?bp - 1) \<le> p" "p < 2 ^ nat ?bp"
    using bitlen_bounds [OF p] by simp_all
  have Q: "2 ^ nat (?bq - 1) \<le> q" "q < 2 ^ nat ?bq"
    using bitlen_bounds [OF q] by simp_all
  have Pr: "power_int 2 (?bp - 1) \<le> (of_int p :: rat)" "(of_int p :: rat) < power_int 2 ?bp"
  proof -
    have "(of_int (2 ^ nat (?bp - 1)) :: rat) \<le> of_int p" using P(1) by (simp only: of_int_le_iff)
    then show "power_int 2 (?bp - 1) \<le> (of_int p :: rat)"
      using bp1 by (simp add: power_int_def)
    have "(of_int p :: rat) < of_int (2 ^ nat ?bp)" using P(2) by (simp only: of_int_less_iff)
    then show "(of_int p :: rat) < power_int 2 ?bp"
      using bp1 by (simp add: power_int_def)
  qed
  have Qr: "power_int 2 (?bq - 1) \<le> (of_int q :: rat)" "(of_int q :: rat) < power_int 2 ?bq"
  proof -
    have "(of_int (2 ^ nat (?bq - 1)) :: rat) \<le> of_int q" using Q(1) by (simp only: of_int_le_iff)
    then show "power_int 2 (?bq - 1) \<le> (of_int q :: rat)"
      using bq1 by (simp add: power_int_def)
    have "(of_int q :: rat) < of_int (2 ^ nat ?bq)" using Q(2) by (simp only: of_int_less_iff)
    then show "(of_int q :: rat) < power_int 2 ?bq"
      using bq1 by (simp add: power_int_def)
  qed
  let ?d = "?bp - ?bq"
  have qpos: "(0::rat) < of_int q" using q by simp
  have lower: "power_int 2 (?d - 1) < a"
  proof -
    have "power_int (2::rat) (?d - 1) * of_int q < power_int 2 (?d - 1) * power_int 2 ?bq"
      by (intro mult_strict_left_mono Qr(2) power_int_2_pos)
    also have "\<dots> = power_int 2 (?bp - 1)"
      by (simp add: power_int_add [symmetric])
    also have "\<dots> \<le> of_int p" by (rule Pr(1))
    finally show ?thesis
      using qpos by (simp add: a pos_less_divide_eq)
  qed
  have upper: "a < power_int 2 (?d + 1)"
  proof -
    have "(of_int p :: rat) < power_int 2 ?bp" by (rule Pr(2))
    also have "\<dots> = power_int 2 (?d + 1) * power_int 2 (?bq - 1)"
      by (simp add: power_int_add [symmetric])
    also have "\<dots> \<le> power_int 2 (?d + 1) * of_int q"
      by (intro mult_left_mono Qr(1) less_imp_le power_int_2_pos)
    finally show ?thesis
      using qpos by (simp add: a pos_divide_less_eq)
  qed
  show ?thesis
  proof (cases "power_int 2 ?d \<le> a")
    case True
    then have "ilog2 a = ?d" by (simp add: ilog2_def pq)
    with True upper show ?thesis by simp
  next
    case False
    then have "ilog2 a = ?d - 1" by (simp add: ilog2_def pq)
    with False lower show ?thesis by simp
  qed
qed

lemma ilog2_eqI:
  assumes "power_int 2 e \<le> a" and "a < power_int 2 (e + 1)"
  shows "ilog2 a = e"
proof -
  have "0 < a"
    using power_int_2_pos [of e] assms(1) by (rule less_le_trans)
  from ilog2_range [OF this]
  have r: "power_int 2 (ilog2 a) \<le> a" "a < power_int 2 (ilog2 a + 1)" by simp_all
  have "power_int (2::rat) e < power_int 2 (ilog2 a + 1)"
    using assms(1) r(2) by (rule le_less_trans)
  then have 1: "e < ilog2 a + 1" by (rule power_int_2_less_cancel)
  have "power_int (2::rat) (ilog2 a) < power_int 2 (e + 1)"
    using r(1) assms(2) by (rule le_less_trans)
  then have 2: "ilog2 a < e + 1" by (rule power_int_2_less_cancel)
  from 1 2 show ?thesis by simp
qed


lemma round_half_even_le: "round_half_even y \<le> \<lfloor>y\<rfloor> + 1"
  by (simp add: round_half_even_def Let_def)

lemma round_to_double_normal:
  assumes lo: "power_int 2 e \<le> x" and hi: "x < power_int 2 (e + 1)"
    and e1: "- 1022 \<le> e" and e2: "e \<le> 1022"
  shows "round_to_double x =
           Num (of_int (round_half_even (x / power_int 2 (e - 52))) * power_int 2 (e - 52))"
proof -
  have x: "0 < x"
    using power_int_2_pos [of e] lo by (rule less_le_trans)
  have l: "ilog2 \<bar>x\<bar> = e"
    using x lo hi by (simp add: ilog2_eqI)
  let ?q = "e - 52"
  let ?y = "x / power_int 2 ?q"
  have "?y < power_int 2 (e + 1) / power_int 2 ?q"
    using hi power_int_2_pos [of ?q] by (simp add: divide_strict_right_mono)
  also have "\<dots> = power_int 2 53"
    by (simp add: power_int_diff [symmetric])
  finally have y: "?y < 2 ^ 53" by simp
  have "\<lfloor>?y\<rfloor> < 2 ^ 53"
  proof -
    have "?y < of_int (2 ^ 53)" using y by simp
    then show ?thesis by (simp only: floor_less_iff)
  qed
  then have m: "round_half_even ?y \<le> 2 ^ 53"
    using round_half_even_le [of ?y] by linarith
  have "(of_int (round_half_even ?y) :: rat) \<le> of_int (2 ^ 53)"
    using m by (simp only: of_int_le_iff)
  then have "(of_int (round_half_even ?y) :: rat) * power_int 2 ?q \<le> of_int (2 ^ 53) * power_int 2 ?q"
    by (rule mult_right_mono) (rule less_imp_le, rule power_int_2_pos)
  also have "\<dots> = power_int 2 (e + 1)"
    using power_int_add [of "2::rat" 53 ?q] by (simp add: add.commute)
  also have "\<dots> < power_int 2 1024"
    using e2 by (intro power_int_2_strict_mono) simp
  finally have r: "\<not> power_int 2 1024 \<le> (of_int (round_half_even ?y) :: rat) * power_int 2 ?q"
    by simp
  have mx: "max e (- 1022) = e" using e1 by simp
  show ?thesis
    using x l r mx by (simp add: round_to_double_def Let_def del: power_int_numeral)
qed

lemma floor_rat_numeral: "\<lfloor>(numeral a / numeral b :: rat)\<rfloor> = numeral a div numeral b"
  using floor_divide_of_int_eq [of "numeral a" "numeral b", where ?'a = rat] by simp

text \<open>
  The double of \<open>0.1\<close>; three of them make \<open>0.30000000000000004\<close>, which is not the double
  of \<open>0.3\<close>; five times 2.50 is 12.50 exactly.
\<close>

lemma round_to_double_tenth: "round_to_double (1 / 10) = tenth"
  using round_to_double_normal [of "- 4" "1 / 10"]
  by (simp add: round_half_even_def Let_def floor_rat_numeral tenth_def)

lemma round_to_double_examples:
  "round_to_double (25 / 2) = Num (25 / 2)"
  "round_to_double (25 / 4) = Num (25 / 4)"
  "round_to_double (10808639105689191 / 36028797018963968)
     = Num (1351079888211149 / 4503599627370496)"
  "round_to_double (1351079888211149 / 4503599627370496)
     = Num (1351079888211149 / 4503599627370496)"
  "round_to_double (3 / 10) = Num (5404319552844595 / 18014398509481984)"
  using round_to_double_normal [of 3 "25 / 2"] round_to_double_normal [of 2 "25 / 4"]
    round_to_double_normal [of "- 2" "10808639105689191 / 36028797018963968"]
    round_to_double_normal [of "- 2" "1351079888211149 / 4503599627370496"]
    round_to_double_normal [of "- 2" "3 / 10"]
  by (simp_all add: round_half_even_def Let_def floor_rat_numeral)

lemma three_tenths:
  "js_mul (Num 3) tenth = Num (1351079888211149 / 4503599627370496)"
  "js_add (Num 0) (js_mul (Num 3) tenth) = Num (1351079888211149 / 4503599627370496)"
  "js_mul (Num 3) tenth \<noteq> round_to_double (3 / 10)"
  by (simp_all add: tenth_def round_to_double_examples)

lemma five_at_two_fifty:
  "js_mul (Num 5) (Num (5 / 2)) = Num (25 / 2)"
  "js_add (Num 0) (js_mul (Num 5) (Num (5 / 2))) = Num (25 / 2)"
  by (simp_all add: round_to_double_examples)

lemma two_and_a_half_at_two_fifty:
  "js_mul (Num (5 / 2)) (Num (5 / 2)) = Num (25 / 4)"
  "js_add (Num 0) (js_mul (Num (5 / 2)) (Num (5 / 2))) = Num (25 / 4)"
  by (simp_all add: round_to_double_examples)

section \<open>Collections: the first match\<close>

lemma find_update_first:
  "find flt coll = Some d \<Longrightarrow> flt (upd d) \<Longrightarrow> find flt (update_first flt upd coll) = Some (upd d)"
  by (induction coll) (auto split: if_splits)

lemma find_distinct:
  "distinct (map f coll) \<Longrightarrow> d \<in> set coll \<Longrightarrow> find (\<lambda>x. f x = f d) coll = Some d"
  by (induction coll) (auto split: if_splits)

lemma update_first_no_match:
  "find flt coll = None \<Longrightarrow> update_first flt upd coll = coll"
  by (induction coll) (auto split: if_splits)

lemma filter_update_first_others:
  "(\<And>d. flt d \<Longrightarrow> flt (upd d)) \<Longrightarrow>
   filter (\<lambda>d. \<not> flt d) (update_first flt upd coll) = filter (\<lambda>d. \<not> flt d) coll"
  by (induction coll) auto

lemma find_update_first_disjoint:
  "(\<And>d. flt d \<Longrightarrow> \<not> g d \<and> \<not> g (upd d)) \<Longrightarrow> find g (update_first flt upd coll) = find g coll"
  by (induction coll) auto

lemma find_append_new:
  "find flt (coll @ [d]) = (case find flt coll of Some x \<Rightarrow> Some x | None \<Rightarrow> if flt d then Some d else None)"
  by (induction coll) auto

lemma remove_first_distinct:
  "distinct (map f coll) \<Longrightarrow> remove_first (\<lambda>x. f x = a) coll = filter (\<lambda>x. f x \<noteq> a) coll"
proof (induction coll)
  case Nil
  then show ?case by simp
next
  case (Cons d ds)
  show ?case
  proof (cases "f d = a")
    case True
    with Cons.prems have "\<forall>x\<in>set ds. f x \<noteq> a" by (auto simp: image_iff)
    then have "filter (\<lambda>x. f x \<noteq> a) ds = ds" by (simp add: filter_id_conv)
    with True show ?thesis by simp
  next
    case False
    with Cons show ?thesis by simp
  qed
qed

text \<open>
  In a key store whose key strings are unique, the record \<open>findOne\<close> returns for the
  key string of a stored record is that record.
\<close>

lemma findOne_unique_key:
  "distinct (map k_key (keys s)) \<Longrightarrow> keyData \<in> set (keys s) \<Longrightarrow>
   findOne (\<lambda>k. k_key k = k_key keyData) (keys s) = Some keyData"
  by (simp add: findOne_def find_distinct)

section \<open>Verification\<close>

text \<open>
  What \<open>verifyKey\<close> does for an activated key: the clock reading, an instant in
  milliseconds, is compared with midnight UTC at the start of the stored \<open>expires\<close> day,
  and the key is reported as expired as soon as the reading is after that instant. With
  an invalid date for the clock reading the key is reported as valid, whatever its
  \<open>expires\<close>.
\<close>

lemma verifyKey_expiry:
  assumes "findOne (\<lambda>k. k_key k = key) (keys s) = Some keyData"
    and "k_isActive keyData"
    and "k_expires keyData = Some (ISODate d)"
  shows "verifyKey (Date now) key s =
           (if now \<le> d * 86400000
            then \<lparr>valid = True, v_message = ''Key is active.'', v_expires = Some (ISODate d)\<rparr>
            else \<lparr>valid = False, v_message = ''Key has expired.'', v_expires = None\<rparr>)"
  using assms by (simp add: verifyKey_def)

lemma verifyKey_invalid_date:
  assumes "findOne (\<lambda>k. k_key k = key) (keys s) = Some keyData"
    and "k_isActive keyData"
    and "k_expires keyData = Some (ISODate d)"
  shows "verifyKey Invalid_Date key s =
           \<lparr>valid = True, v_message = ''Key is active.'', v_expires = Some (ISODate d)\<rparr>"
  using assms by (simp add: verifyKey_def)

text \<open>
  C1, evaluated. The trial key was activated on 2025-01-01 and its \<open>expires\<close> is
  2025-01-08. At 2025-01-08T12:00:00Z the current date is the \<open>expires\<close> date, in UTC
  and in Moscow time alike, and \<open>verifyKey\<close> answers \<open>Key has expired.\<close>
\<close>

theorem verifyKey_expired_on_expiry_date:
  "verifyKey (Date 1736337600000) (k_key trial_key_activated)
       (sample_db\<lparr>keys := [trial_key_activated]\<rparr>)
     = \<lparr>valid = False, v_message = ''Key has expired.'', v_expires = None\<rparr>
   \<and> k_isActive trial_key_activated
   \<and> k_expires trial_key_activated = Some (ISODate 20096)
   \<and> formatISO_date 0 1736337600000 = ISODate 20096
   \<and> formatISO_date 180 1736337600000 = ISODate 20096"
  by (simp add: verifyKey_def findOne_def trial_key_activated_def trial_key_def sample_db_def
      formatISO_date_def)

text \<open>
  Activation writes the \<open>expires\<close> day in the server's local time and verification reads
  it as midnight UTC: a one-day key activated at 2025-01-02T01:00:00Z on a server five
  hours west of UTC gets \<open>expires\<close> 2025-01-02 (day 20090) and is reported as expired
  at that same instant.
\<close>

lemma activateKey_then_verifyKey_expired:
  "activateKey (- 300) 1735779600000 (k_key trial_key)
       (sample_db\<lparr>keys := [trial_key\<lparr>k_validityDays := 1\<rparr>]\<rparr>)
     = (sample_db\<lparr>keys := [trial_key\<lparr>k_validityDays := 1, k_isActive := True,
                      k_activationDate := Some (ISODate 20089), k_expires := Some (ISODate 20090)\<rparr>]\<rparr>,
        \<lparr>success = True, message = ''Key activated successfully.'', expires = Some (ISODate 20090)\<rparr>)
   \<and> verifyKey (Date 1735779600000) (k_key trial_key)
       (sample_db\<lparr>keys := [trial_key\<lparr>k_validityDays := 1, k_isActive := True,
                      k_activationDate := Some (ISODate 20089), k_expires := Some (ISODate 20090)\<rparr>]\<rparr>)
     = \<lparr>valid = False, v_message = ''Key has expired.'', v_expires = None\<rparr>"
  by (simp add: activateKey_def activateKey_find_def activateKey_update_def updateOne_def
      verifyKey_def findOne_def Let_def sample_db_def trial_key_def formatISO_date_def addDays_def)

section \<open>Activation\<close>

lemma formatISO_date_addDays:
  "formatISO_date tz (addDays t n) = plus_days (formatISO_date tz t) n"
proof -
  have "(t + n * 86400000 + tz * 60000) div 86400000 = (t + tz * 60000 + n * 86400000) div 86400000"
    by (simp add: algebra_simps)
  also have "\<dots> = (t + tz * 60000) div 86400000 + n"
    by simp
  finally show ?thesis
    by (simp add: formatISO_date_def addDays_def)
qed

text \<open>
  C2. When the record found for the key is active, \<open>activateKey\<close> answers
  \<open>Key already activated.\<close> with \<open>success = false\<close> and returns the store as it was, so
  that \<open>expires\<close> and \<open>activationDate\<close> of the record are untouched.
\<close>

theorem activateKey_already_active:
  assumes "findOne (\<lambda>k. k_key k = key) (keys s) = Some keyData"
    and "k_isActive keyData"
  shows "activateKey tz now key s =
           (s, \<lparr>success = False, message = ''Key already activated.'', expires = None\<rparr>)"
  using assms by (simp add: activateKey_def activateKey_find_def)

theorem activateKey_already_active_witness:
  "findOne (\<lambda>k. k_key k = k_key trial_key_activated) (keys (sample_db\<lparr>keys := [trial_key_activated]\<rparr>))
     = Some trial_key_activated
   \<and> k_isActive trial_key_activated
   \<and> activateKey 180 1736337600000 (k_key trial_key_activated) (sample_db\<lparr>keys := [trial_key_activated]\<rparr>)
       = (sample_db\<lparr>keys := [trial_key_activated]\<rparr>,
          \<lparr>success = False, message = ''Key already activated.'', expires = None\<rparr>)"
proof -
  have h1: "findOne (\<lambda>k. k_key k = k_key trial_key_activated)
              (keys (sample_db\<lparr>keys := [trial_key_activated]\<rparr>)) = Some trial_key_activated"
    by (simp add: findOne_def)
  have h2: "k_isActive trial_key_activated"
    by (simp add: trial_key_activated_def)
  show ?thesis
    using h1 h2 activateKey_already_active [OF h1 h2, of 180 1736337600000] by simp
qed

text \<open>
  C4. When the record found for the key is inactive, activation at local calendar day
  \<open>D\<close> succeeds, replies with \<open>expires = D + min(validityDays, 36500)\<close>, and the record
  then stored under the key is the old one with \<open>isActive = true\<close>,
  \<open>activationDate = D\<close> and that \<open>expires\<close>; 30 days give \<open>D + 30\<close> and 36500 or
  more give \<open>D + 36500\<close>.
\<close>

theorem activateKey_sets_expiry:
  assumes "findOne (\<lambda>k. k_key k = key) (keys s) = Some keyData"
    and "\<not> k_isActive keyData"
  shows "(let D = formatISO_date tz now;
              E = plus_days D (min (k_validityDays keyData) 36500);
              (s', rep) = activateKey tz now key s
          in success rep \<and> expires rep = Some E
             \<and> findOne (\<lambda>k. k_key k = key) (keys s')
                 = Some (keyData\<lparr>k_isActive := True, k_activationDate := Some D, k_expires := Some E\<rparr>)
             \<and> (k_validityDays keyData = 30 \<longrightarrow> E = plus_days D 30)
             \<and> (k_validityDays keyData \<ge> 36500 \<longrightarrow> E = plus_days D 36500))"
proof -
  have k: "k_key keyData = key"
    using assms(1) by (auto simp: findOne_def find_Some_iff)
  have v: "(if k_validityDays keyData \<ge> 36500 then 36500 else k_validityDays keyData)
             = min (k_validityDays keyData) 36500"
    by simp
  show ?thesis
    using assms k
    by (simp add: activateKey_def activateKey_find_def activateKey_update_def Let_def
        updateOne_def formatISO_date_addDays findOne_def find_update_first v)
qed

text \<open>
  The example of the specification: the trial key activated on 2025-01-01 at 13:00
  Moscow time expires on 2025-01-08; with 30 days it expires on day 20119, and with
  40000 days on day 20089 + 36500.
\<close>

theorem activateKey_sets_expiry_witness:
  "findOne (\<lambda>k. k_key k = k_key trial_key) (keys sample_db) = Some trial_key
   \<and> \<not> k_isActive trial_key
   \<and> expires (snd (activateKey 180 1735725600000 (k_key trial_key) sample_db)) = Some (ISODate 20096)
   \<and> findOne (\<lambda>k. k_key k = k_key trial_key)
        (keys (fst (activateKey 180 1735725600000 (k_key trial_key) sample_db)))
       = Some trial_key_activated
   \<and> expires (snd (activateKey 180 1735725600000 (k_key trial_key)
        (sample_db\<lparr>keys := [trial_key\<lparr>k_validityDays := 30\<rparr>]\<rparr>))) = Some (ISODate 20119)
   \<and> expires (snd (activateKey 180 1735725600000 (k_key trial_key)
        (sample_db\<lparr>keys := [trial_key\<lparr>k_validityDays := 40000\<rparr>]\<rparr>))) = Some (ISODate 56589)"
proof -
  have h1: "findOne (\<lambda>k. k_key k = k_key trial_key) (keys sample_db) = Some trial_key"
    by (simp add: findOne_def sample_db_def)
  have h2: "\<not> k_isActive trial_key"
    by (simp add: trial_key_def)
  have v: "k_validityDays trial_key = 7"
    by (simp add: trial_key_def)
  have d: "formatISO_date 180 1735725600000 = ISODate 20089"
    by (simp add: formatISO_date_def)
  have g1: "findOne (\<lambda>k. k_key k = k_key trial_key)
              (keys (sample_db\<lparr>keys := [trial_key\<lparr>k_validityDays := 30\<rparr>]\<rparr>))
            = Some (trial_key\<lparr>k_validityDays := 30\<rparr>)"
    and g2: "findOne (\<lambda>k. k_key k = k_key trial_key)
              (keys (sample_db\<lparr>keys := [trial_key\<lparr>k_validityDays := 40000\<rparr>]\<rparr>))
            = Some (trial_key\<lparr>k_validityDays := 40000\<rparr>)"
    by (simp_all add: findOne_def)
  have i1: "\<not> k_isActive (trial_key\<lparr>k_validityDays := 30\<rparr>)"
    and i2: "\<not> k_isActive (trial_key\<lparr>k_validityDays := 40000\<rparr>)"
    by (simp_all add: trial_key_def)
  have a: "expires (snd (activateKey 180 1735725600000 (k_key trial_key) sample_db)) = Some (ISODate 20096)
      \<and> findOne (\<lambda>k. k_key k = k_key trial_key)
           (keys (fst (activateKey 180 1735725600000 (k_key trial_key) sample_db)))
          = Some trial_key_activated"
    using activateKey_sets_expiry [OF h1 h2, of 180 1735725600000]
    by (simp add: Let_def case_prod_beta v d trial_key_activated_def)
  have b: "expires (snd (activateKey 180 1735725600000 (k_key trial_key)
        (sample_db\<lparr>keys := [trial_key\<lparr>k_validityDays := 30\<rparr>]\<rparr>))) = Some (ISODate 20119)"
    using activateKey_sets_expiry [OF g1 i1, of 180 1735725600000]
    by (simp add: Let_def case_prod_beta d)
  have c: "expires (snd (activateKey 180 1735725600000 (k_key trial_key)
        (sample_db\<lparr>keys := [trial_key\<lparr>k_validityDays := 40000\<rparr>]\<rparr>))) = Some (ISODate 56589)"
    using activateKey_sets_expiry [OF g2 i2, of 180 1735725600000]
    by (simp add: Let_def case_prod_beta d)
  show ?thesis
    using h1 h2 a b c by simp
qed

text \<open>
  The activation is a read followed by an unconditional write: when the two reads come
  first, both calls find the key inactive and both succeed.
\<close>

lemma activateKey_interleaved_both_succeed:
  assumes "findOne (\<lambda>k. k_key k = key) (keys s) = Some keyData"
    and "\<not> k_isActive keyData"
  shows "(let (s', repA, repB) = activateKey_interleaved tz nowA nowB key s
          in success repA \<and> success repB)"
  using assms
  by (simp add: activateKey_interleaved_def activateKey_find_def activateKey_update_def Let_def)

text \<open>
  C7, evaluated on the interleaved schedule. Two calls on the inactive trial key,
  \<open>A\<close> reading the clock at 2025-01-01T23:59:59Z and \<open>B\<close> at 2025-01-02T00:00:01Z:
  both replies are successes, no call is answered \<open>Key already activated.\<close>, and the
  second write replaces the \<open>expires\<close> that \<open>A\<close> was told (2025-01-08) by
  2025-01-09.
\<close>

theorem activateKey_race_double_success:
  "activateKey_interleaved 0 1735775999000 1735776001000 (k_key trial_key) sample_db =
     (sample_db\<lparr>keys := [trial_key\<lparr>k_isActive := True,
                     k_activationDate := Some (ISODate 20090), k_expires := Some (ISODate 20097)\<rparr>]\<rparr>,
      \<lparr>success = True, message = ''Key activated successfully.'', expires = Some (ISODate 20096)\<rparr>,
      \<lparr>success = True, message = ''Key activated successfully.'', expires = Some (ISODate 20097)\<rparr>)"
  by (simp add: activateKey_interleaved_def activateKey_find_def activateKey_update_def
      updateOne_def findOne_def Let_def sample_db_def trial_key_def formatISO_date_def addDays_def)

section \<open>Moderator debt\<close>

text \<open>
  For an existing account \<open>clearModeratorDebt\<close> leaves the debt at 0, and it reports
  success exactly when the debt was not 0 before; for a missing account it reports
  failure.
\<close>

lemma clearModeratorDebt_outcome:
  assumes "findOne (\<lambda>u. u_id u = ident) (users s) = Some acct"
  shows "(let (s', rep) = clearModeratorDebt ident s
          in findOne (\<lambda>u. u_id u = ident) (users s') = Some (acct\<lparr>u_debt := Num 0\<rparr>)
             \<and> (success rep \<longleftrightarrow> u_debt acct \<noteq> Num 0))"
proof -
  have id: "u_id acct = ident"
    using assms by (auto simp: findOne_def find_Some_iff)
  have eq: "(acct\<lparr>u_debt := Num 0\<rparr> = acct) = (u_debt acct = Num 0)"
    by (cases acct) auto
  show ?thesis
    using assms id
    by (simp add: clearModeratorDebt_def updateOne_def Let_def eq)
       (simp add: findOne_def find_update_first)
qed

lemma clearModeratorDebt_missing:
  assumes "findOne (\<lambda>u. u_id u = ident) (users s) = None"
  shows "clearModeratorDebt ident s = (s, \<lparr>success = False, message = ''Failed to clear debt.''\<rparr>)"
  using assms by (simp add: clearModeratorDebt_def updateOne_def)

text \<open>
  C3, evaluated. The moderator \<open>bob\<close> exists and owes 0: the update changes nothing,
  \<open>modifiedCount\<close> is 0 and the action reports \<open>Failed to clear debt.\<close>
\<close>

theorem clearModeratorDebt_zero_debt_fails:
  "findOne (\<lambda>u. u_id u = u_id bob) (users sample_db) = Some bob
   \<and> u_debt bob = Num 0
   \<and> clearModeratorDebt (u_id bob) sample_db
       = (sample_db, \<lparr>success = False, message = ''Failed to clear debt.''\<rparr>)"
  by (simp add: clearModeratorDebt_def updateOne_def findOne_def sample_db_def bob_def)

section \<open>Key generation\<close>

lemma generateKeys_users:
  "users (fst (generateKeys rnd clock reachable pfx count validityDays usr s)) =
     (if role usr = moderator
      then (case userId usr of
              Some uid \<Rightarrow>
                if uid = [] then users s
                else update_first (\<lambda>u. u_id u = uid)
                       (\<lambda>u. u\<lparr>u_debt := js_add (u_debt u) (js_mul count
                          (case findOne (\<lambda>p. p_validityDays p = Num (of_int validityDays)) (prices s) of
                             Some d \<Rightarrow> p_price d | None \<Rightarrow> Num 0))\<rparr>) (users s)
            | None \<Rightarrow> users s)
      else users s)"
  by (simp add: generateKeys_def Let_def updateOne_def update_first_no_match findOne_def
      split: sum.splits option.splits)

lemma generateKeys_keys:
  "keys (fst (generateKeys rnd clock reachable pfx count validityDays usr s)) =
     keys s @
     (case loop_count count of
        None \<Rightarrow> []
      | Some n \<Rightarrow>
          if reachable
          then map (\<lambda>i. \<lparr>k_key = pfx @ ''-'' @ rnd i, k_prefix = pfx, k_validityDays = validityDays,
                      k_price = (if role usr = moderator
                                 then (case findOne (\<lambda>p. p_validityDays p = Num (of_int validityDays))
                                              (prices s) of
                                         Some d \<Rightarrow> p_price d | None \<Rightarrow> Num 0)
                                 else Num 0),
                      k_expires = None, k_activationDate = None, k_isActive = False,
                      k_createdAt = clock i, k_createdBy = username usr\<rparr>) [0..<n]
          else [])"
  by (simp add: generateKeys_def Let_def insertMany_def split: sum.splits option.splits)


text \<open>
  C5 (as amended). The new keys are appended to the key store, as many as the loop has
  rounds when the insert goes through. For a moderator every new key carries the
  configured price of the tier (0 when the tier is absent); when the requester carries a
  non-empty \<open>userId\<close> that names a stored account, the debt of that account becomes the
  double sum of the old debt and the double product \<open>count * price\<close>, and the accounts
  with other ids stay as they were; when the \<open>userId\<close> is missing, empty or names no
  stored account, no account changes. For an admin no account changes and every new key
  carries price 0.
\<close>

theorem generateKeys_charges:
  "(let configured = (case findOne (\<lambda>p. p_validityDays p = Num (of_int validityDays)) (prices s) of
                        Some d \<Rightarrow> p_price d | None \<Rightarrow> Num 0);
        s' = fst (generateKeys rnd clock reachable pfx count validityDays usr s);
        new = drop (length (keys s)) (keys s')
    in keys s' = keys s @ new
       \<and> (\<forall>n. reachable \<and> loop_count count = Some n \<longrightarrow> length new = n)
       \<and> (role usr = moderator \<longrightarrow>
            (\<forall>k\<in>set new. k_price k = configured)
            \<and> (\<forall>uid acct. userId usr = Some uid \<and> uid \<noteq> []
                  \<and> findOne (\<lambda>u. u_id u = uid) (users s) = Some acct \<longrightarrow>
                  findOne (\<lambda>u. u_id u = uid) (users s')
                    = Some (acct\<lparr>u_debt := js_add (u_debt acct) (js_mul count configured)\<rparr>)
                  \<and> filter (\<lambda>u. u_id u \<noteq> uid) (users s') = filter (\<lambda>u. u_id u \<noteq> uid) (users s))
            \<and> (\<forall>uid. userId usr = Some uid
                  \<and> findOne (\<lambda>u. u_id u = uid) (users s) = None \<longrightarrow> users s' = users s)
            \<and> (userId usr = None \<or> userId usr = Some [] \<longrightarrow> users s' = users s))
       \<and> (role usr = admin \<longrightarrow> users s' = users s \<and> (\<forall>k\<in>set new. k_price k = Num 0)))"
proof -
  let ?configured = "case findOne (\<lambda>p. p_validityDays p = Num (of_int validityDays)) (prices s) of
                        Some d \<Rightarrow> p_price d | None \<Rightarrow> Num 0"
  let ?s' = "fst (generateKeys rnd clock reachable pfx count validityDays usr s)"
  let ?new = "drop (length (keys s)) (keys ?s')"
  have keys: "keys ?s' = keys s @ ?new"
    by (simp add: generateKeys_keys)
  have len: "\<forall>n. reachable \<and> loop_count count = Some n \<longrightarrow> length ?new = n"
    by (simp add: generateKeys_keys)
  have mod_price: "role usr = moderator \<longrightarrow> (\<forall>k\<in>set ?new. k_price k = ?configured)"
    by (auto simp: generateKeys_keys split: option.splits)
  have adm_price: "role usr = admin \<longrightarrow> (\<forall>k\<in>set ?new. k_price k = Num 0)"
    by (auto simp: generateKeys_keys split: option.splits)
  have adm_users: "role usr = admin \<longrightarrow> users ?s' = users s"
    by (simp add: generateKeys_users)
  have no_id: "role usr = moderator \<longrightarrow> userId usr = None \<or> userId usr = Some [] \<longrightarrow> users ?s' = users s"
    by (auto simp: generateKeys_users)
  have unknown: "role usr = moderator \<longrightarrow>
    (\<forall>uid. userId usr = Some uid \<and> findOne (\<lambda>u. u_id u = uid) (users s) = None
       \<longrightarrow> users ?s' = users s)"
    by (simp add: generateKeys_users findOne_def update_first_no_match)
  have debt: "role usr = moderator \<longrightarrow>
    (\<forall>uid acct. userId usr = Some uid \<and> uid \<noteq> []
        \<and> findOne (\<lambda>u. u_id u = uid) (users s) = Some acct \<longrightarrow>
        findOne (\<lambda>u. u_id u = uid) (users ?s')
          = Some (acct\<lparr>u_debt := js_add (u_debt acct) (js_mul count ?configured)\<rparr>)
        \<and> filter (\<lambda>u. u_id u \<noteq> uid) (users ?s') = filter (\<lambda>u. u_id u \<noteq> uid) (users s))"
  proof (intro impI allI, elim conjE)
    fix uid acct
    assume m: "role usr = moderator" and u: "userId usr = Some uid" "uid \<noteq> []"
      and f: "findOne (\<lambda>u. u_id u = uid) (users s) = Some acct"
    have id: "u_id acct = uid"
      using f by (auto simp: findOne_def find_Some_iff)
    have a: "findOne (\<lambda>u. u_id u = uid) (users ?s')
          = Some (acct\<lparr>u_debt := js_add (u_debt acct) (js_mul count ?configured)\<rparr>)"
      using m u f id
      by (simp add: generateKeys_users) (simp add: findOne_def find_update_first)
    have b: "filter (\<lambda>u. u_id u \<noteq> uid) (users ?s') = filter (\<lambda>u. u_id u \<noteq> uid) (users s)"
      using m u by (simp add: generateKeys_users filter_update_first_others)
    from a b show "findOne (\<lambda>u. u_id u = uid) (users ?s')
          = Some (acct\<lparr>u_debt := js_add (u_debt acct) (js_mul count ?configured)\<rparr>)
        \<and> filter (\<lambda>u. u_id u \<noteq> uid) (users ?s') = filter (\<lambda>u. u_id u \<noteq> uid) (users s)"
      by simp
  qed
  show ?thesis
    unfolding Let_def
    using keys len mod_price adm_price adm_users no_id unknown debt by blast
qed

text \<open>
  Five 30-day keys at 2.50: the moderator \<open>bob\<close> owes 12.50 afterwards; the admin's keys
  cost 0 and leave the accounts alone; a moderator session without \<open>userId\<close>, or with
  one that names no account, leaves them alone too. Three 7-day keys at 0.1 make a debt
  of \<open>0.30000000000000004\<close>, and a count of 2.5 makes three keys and a debt of 6.25.
\<close>

theorem generateKeys_charges_witness:
  "role \<lparr>loggedIn = True, role = moderator, username = ''bob'', userId = Some (u_id bob)\<rparr> = moderator
   \<and> u_id bob \<noteq> []
   \<and> findOne (\<lambda>u. u_id u = u_id bob) (users sample_db) = Some bob
   \<and> findOne (\<lambda>u. u_id u = u_id bob)
        (users (fst (generateKeys sample_rnd sample_clock True ''KEY'' (Num 5) 30 \<lparr>loggedIn = True, role = moderator, username = ''bob'', userId = Some (u_id bob)\<rparr> sample_db)))
       = Some (bob\<lparr>u_debt := Num (25 / 2)\<rparr>)
   \<and> map k_price (drop 1 (keys (fst (generateKeys sample_rnd sample_clock True ''KEY'' (Num 5) 30 \<lparr>loggedIn = True, role = moderator, username = ''bob'', userId = Some (u_id bob)\<rparr> sample_db))))
       = [Num (5 / 2), Num (5 / 2), Num (5 / 2), Num (5 / 2), Num (5 / 2)]
   \<and> users (fst (generateKeys sample_rnd sample_clock True ''KEY'' (Num 5) 30 \<lparr>loggedIn = True, role = admin, username = ''admin'', userId = None\<rparr> sample_db)) = users sample_db
   \<and> map k_price (drop 1 (keys (fst (generateKeys sample_rnd sample_clock True ''KEY'' (Num 5) 30 \<lparr>loggedIn = True, role = admin, username = ''admin'', userId = None\<rparr> sample_db))))
       = [Num 0, Num 0, Num 0, Num 0, Num 0]
   \<and> users (fst (generateKeys sample_rnd sample_clock True ''KEY'' (Num 5) 30 \<lparr>loggedIn = True, role = moderator, username = ''bob'', userId = None\<rparr> sample_db)) = users sample_db
   \<and> users (fst (generateKeys sample_rnd sample_clock True ''KEY'' (Num 5) 30 \<lparr>loggedIn = True, role = moderator, username = ''bob'', userId = Some ''ffffffffffffffffffffffff''\<rparr> sample_db)) = users sample_db
   \<and> findOne (\<lambda>u. u_id u = u_id bob)
        (users (fst (generateKeys sample_rnd sample_clock True ''KEY'' (Num 3) 7 \<lparr>loggedIn = True, role = moderator, username = ''bob'', userId = Some (u_id bob)\<rparr> (sample_db\<lparr>prices := [\<lparr>p_validityDays = Num 7, p_price = tenth\<rparr>]\<rparr>))))
       = Some (bob\<lparr>u_debt := Num (1351079888211149 / 4503599627370496)\<rparr>)
   \<and> findOne (\<lambda>u. u_id u = u_id bob)
        (users (fst (generateKeys sample_rnd sample_clock True ''KEY'' (Num (5 / 2)) 30 \<lparr>loggedIn = True, role = moderator, username = ''bob'', userId = Some (u_id bob)\<rparr> sample_db)))
       = Some (bob\<lparr>u_debt := Num (25 / 4)\<rparr>)
   \<and> length (keys (fst (generateKeys sample_rnd sample_clock True ''KEY'' (Num (5 / 2)) 30 \<lparr>loggedIn = True, role = moderator, username = ''bob'', userId = Some (u_id bob)\<rparr> sample_db))) = 4"
proof -
  have h: "findOne (\<lambda>u. u_id u = u_id bob) (users sample_db) = Some bob"
    by (simp add: findOne_def sample_db_def)
  have h': "findOne (\<lambda>u. u_id u = u_id bob) (users (sample_db\<lparr>prices := [\<lparr>p_validityDays = Num 7, p_price = tenth\<rparr>]\<rparr>)) = Some bob"
    by (simp add: findOne_def sample_db_def)
  have g: "findOne (\<lambda>u. u_id u = ''ffffffffffffffffffffffff'') (users sample_db) = None"
    by (simp add: findOne_def sample_db_def bob_def)
  have i: "u_id bob \<noteq> []"
    by (simp add: bob_def)
  have p: "findOne (\<lambda>p. p_validityDays p = Num 30) (prices sample_db)
             = Some \<lparr>p_validityDays = Num 30, p_price = Num (5 / 2)\<rparr>"
    by (simp add: findOne_def sample_db_def)
  have p': "findOne (\<lambda>p. p_validityDays p = Num 7) (prices (sample_db\<lparr>prices := [\<lparr>p_validityDays = Num 7, p_price = tenth\<rparr>]\<rparr>))
             = Some \<lparr>p_validityDays = Num 7, p_price = tenth\<rparr>"
    by (simp add: findOne_def)
  have l: "length (keys sample_db) = 1"
    by (simp add: sample_db_def)
  have d: "u_debt bob = Num 0"
    by (simp add: bob_def)
  have c5: "loop_count (Num 5) = Some 5"
    by (simp add: loop_count_def)
  have "\<lceil>(5 / 2 :: rat)\<rceil> = 3"
    by (rule ceiling_unique) simp_all
  then have c3: "loop_count (Num (5 / 2)) = Some 3"
    by (simp add: loop_count_def)
  note m = generateKeys_charges [where usr = "\<lparr>loggedIn = True, role = moderator, username = ''bob'', userId = Some (u_id bob)\<rparr>" and s = "sample_db" and validityDays = 30 and count = "Num 5"
      and reachable = True and rnd = sample_rnd and clock = sample_clock and pfx = "''KEY''"]
  note a = generateKeys_charges [where usr = "\<lparr>loggedIn = True, role = admin, username = ''admin'', userId = None\<rparr>" and s = "sample_db" and validityDays = 30 and count = "Num 5"
      and reachable = True and rnd = sample_rnd and clock = sample_clock and pfx = "''KEY''"]
  note n = generateKeys_charges [where usr = "\<lparr>loggedIn = True, role = moderator, username = ''bob'', userId = None\<rparr>" and s = "sample_db" and validityDays = 30 and count = "Num 5"
      and reachable = True and rnd = sample_rnd and clock = sample_clock and pfx = "''KEY''"]
  note u = generateKeys_charges [where usr = "\<lparr>loggedIn = True, role = moderator, username = ''bob'', userId = Some ''ffffffffffffffffffffffff''\<rparr>" and s = "sample_db" and validityDays = 30 and count = "Num 5"
      and reachable = True and rnd = sample_rnd and clock = sample_clock and pfx = "''KEY''"]
  note t = generateKeys_charges [where usr = "\<lparr>loggedIn = True, role = moderator, username = ''bob'', userId = Some (u_id bob)\<rparr>" and s = "sample_db\<lparr>prices := [\<lparr>p_validityDays = Num 7, p_price = tenth\<rparr>]\<rparr>" and validityDays = 7 and count = "Num 3"
      and reachable = True and rnd = sample_rnd and clock = sample_clock and pfx = "''KEY''"]
  note f = generateKeys_charges [where usr = "\<lparr>loggedIn = True, role = moderator, username = ''bob'', userId = Some (u_id bob)\<rparr>" and s = "sample_db" and validityDays = 30 and count = "Num (5 / 2)"
      and reachable = True and rnd = sample_rnd and clock = sample_clock and pfx = "''KEY''"]
  have m1: "findOne (\<lambda>u. u_id u = u_id bob)
        (users (fst (generateKeys sample_rnd sample_clock True ''KEY'' (Num 5) 30 \<lparr>loggedIn = True, role = moderator, username = ''bob'', userId = Some (u_id bob)\<rparr> sample_db)))
       = Some (bob\<lparr>u_debt := Num (25 / 2)\<rparr>)"
    using m h i by (simp add: Let_def p d round_to_double_examples)
  have a1: "users (fst (generateKeys sample_rnd sample_clock True ''KEY'' (Num 5) 30 \<lparr>loggedIn = True, role = admin, username = ''admin'', userId = None\<rparr> sample_db)) = users sample_db"
    using a by (simp add: Let_def)
  have n1: "users (fst (generateKeys sample_rnd sample_clock True ''KEY'' (Num 5) 30 \<lparr>loggedIn = True, role = moderator, username = ''bob'', userId = None\<rparr> sample_db)) = users sample_db"
    using n by (simp add: Let_def)
  have u1: "users (fst (generateKeys sample_rnd sample_clock True ''KEY'' (Num 5) 30 \<lparr>loggedIn = True, role = moderator, username = ''bob'', userId = Some ''ffffffffffffffffffffffff''\<rparr> sample_db)) = users sample_db"
    using u g by (simp add: Let_def)
  have t1: "findOne (\<lambda>u. u_id u = u_id bob)
        (users (fst (generateKeys sample_rnd sample_clock True ''KEY'' (Num 3) 7 \<lparr>loggedIn = True, role = moderator, username = ''bob'', userId = Some (u_id bob)\<rparr> (sample_db\<lparr>prices := [\<lparr>p_validityDays = Num 7, p_price = tenth\<rparr>]\<rparr>))))
       = Some (bob\<lparr>u_debt := Num (1351079888211149 / 4503599627370496)\<rparr>)"
    using t h' i by (simp add: Let_def d tenth_def round_to_double_examples findOne_def)
  have f1: "findOne (\<lambda>u. u_id u = u_id bob)
        (users (fst (generateKeys sample_rnd sample_clock True ''KEY'' (Num (5 / 2)) 30 \<lparr>loggedIn = True, role = moderator, username = ''bob'', userId = Some (u_id bob)\<rparr> sample_db)))
       = Some (bob\<lparr>u_debt := Num (25 / 4)\<rparr>)"
    using f h i by (simp add: Let_def p d round_to_double_examples)
  have f2: "length (keys (fst (generateKeys sample_rnd sample_clock True ''KEY'' (Num (5 / 2)) 30 \<lparr>loggedIn = True, role = moderator, username = ''bob'', userId = Some (u_id bob)\<rparr> sample_db))) = 4"
    by (simp add: generateKeys_keys c3 l)
  have k: "map k_price (drop 1 (keys (fst (generateKeys sample_rnd sample_clock True ''KEY'' (Num 5) 30 \<lparr>loggedIn = True, role = moderator, username = ''bob'', userId = Some (u_id bob)\<rparr> sample_db))))
       = [Num (5 / 2), Num (5 / 2), Num (5 / 2), Num (5 / 2), Num (5 / 2)]"
    by (simp add: generateKeys_keys p l c5 upt_rec)
  have k0: "map k_price (drop 1 (keys (fst (generateKeys sample_rnd sample_clock True ''KEY'' (Num 5) 30 \<lparr>loggedIn = True, role = admin, username = ''admin'', userId = None\<rparr> sample_db))))
       = [Num 0, Num 0, Num 0, Num 0, Num 0]"
    by (simp add: generateKeys_keys l c5 upt_rec)
  show ?thesis
    using h i m1 a1 k k0 n1 u1 t1 f1 f2 by simp
qed

text \<open>
  The charge is not made for every moderator call: a moderator session for \<open>bob\<close> that
  carries no \<open>userId\<close> generates five keys priced 2.50 each, and the stored debt of
  \<open>bob\<close> is still 0.
\<close>

theorem generateKeys_no_userId_counterexample:
  "map u_debt (users (fst (generateKeys sample_rnd sample_clock True ''KEY'' (Num 5) 30 \<lparr>loggedIn = True, role = moderator, username = ''bob'', userId = None\<rparr> sample_db))) = [Num 0]
   \<and> map k_price (keys (fst (generateKeys sample_rnd sample_clock True ''KEY'' (Num 5) 30 \<lparr>loggedIn = True, role = moderator, username = ''bob'', userId = None\<rparr> sample_db)))
       = [Num 0, Num (5 / 2), Num (5 / 2), Num (5 / 2), Num (5 / 2), Num (5 / 2)]
   \<and> map u_username (users sample_db) = [''bob'']
   \<and> map u_debt (users sample_db) = [Num 0]"
  by (simp add: generateKeys_def Let_def insertMany_def findOne_def loop_count_def sample_db_def
      bob_def trial_key_def upt_rec)



section \<open>Prices\<close>

lemma collect_operations_map_filter:
  "collect_operations parseInt parseFloat entries operations =
     operations @ List.map_filter (valid_price_entry parseInt parseFloat) entries"
proof (induction entries arbitrary: operations)
  case Nil
  then show ?case by simp
next
  case (Cons e entries)
  obtain key val where e: "e = (key, val)" by (cases e)
  show ?case
    unfolding e
    by (simp add: Cons.IH valid_price_entry_def Let_def isNaN_def
        split: list.splits)
qed

lemma findOne_upsert_price:
  "findOne (\<lambda>p. p_validityDays p = v) (upsert_price oper coll) =
     (if op_validityDays oper = v
      then Some \<lparr>p_validityDays = v, p_price = op_price oper\<rparr>
      else findOne (\<lambda>p. p_validityDays p = v) coll)"
proof (cases "find (\<lambda>p. p_validityDays p = op_validityDays oper) coll")
  case None
  then show ?thesis
    by (auto simp: upsert_price_def findOne_def find_append_new split: option.splits)
next
  case (Some d)
  then have d: "p_validityDays d = op_validityDays oper"
    by (auto simp: find_Some_iff)
  show ?thesis
  proof (cases "op_validityDays oper = v")
    case True
    have "find (\<lambda>p. p_validityDays p = v) (update_first (\<lambda>p. p_validityDays p = v)
            (\<lambda>p. p\<lparr>p_price := op_price oper\<rparr>) coll) = Some (d\<lparr>p_price := op_price oper\<rparr>)"
      using Some True d by (intro find_update_first) simp_all
    moreover have "d\<lparr>p_price := op_price oper\<rparr> = \<lparr>p_validityDays = v, p_price = op_price oper\<rparr>"
      using d True by (cases d) simp
    ultimately show ?thesis
      using Some True by (simp add: upsert_price_def findOne_def)
  next
    case False
    have "find (\<lambda>p. p_validityDays p = v) (update_first (\<lambda>p. p_validityDays p = op_validityDays oper)
            (\<lambda>p. p\<lparr>p_price := op_price oper\<rparr>) coll) = find (\<lambda>p. p_validityDays p = v) coll"
      using False by (intro find_update_first_disjoint) simp
    then show ?thesis
      using Some False by (simp add: upsert_price_def findOne_def)
  qed
qed

lemma findOne_fold_upsert_price:
  "findOne (\<lambda>p. p_validityDays p = v) (fold upsert_price operations coll) =
     (case filter (\<lambda>oper. op_validityDays oper = v) operations of
        [] \<Rightarrow> findOne (\<lambda>p. p_validityDays p = v) coll
      | oper # opers \<Rightarrow> Some \<lparr>p_validityDays = v, p_price = op_price (last (oper # opers))\<rparr>)"
proof (induction operations arbitrary: coll)
  case Nil
  then show ?case by simp
next
  case (Cons a operations)
  show ?case
    by (simp add: Cons.IH findOne_upsert_price split: list.splits)
qed

text \<open>
  C6 (as amended). An entry whose price is \<open>NaN\<close> or below 0 is not a valid entry. The
  price table that \<open>updateAllPrices\<close> leaves is the old one with valid entries upserted
  in form order: all of them when the store answers, none without a connection, the
  first \<open>k\<close> when the bulk write fails after \<open>k\<close> operations; a tier named by one of
  these has the price of the last of them, any other tier is as before. The reply is
  the fixed success reply when the store answers (or is not asked, for want of a valid
  entry, while the connection is there), and the fixed reply of the \<open>catch\<close> branch
  otherwise; neither carries a count.
\<close>

theorem updateAllPrices_partial_success:
  "(let (s', rep) = updateAllPrices parseInt parseFloat fate formData s;
        applied = List.map_filter (valid_price_entry parseInt parseFloat) formData;
        stored = (case fate of Answers \<Rightarrow> applied | Unconnected \<Rightarrow> [] | Fails k \<Rightarrow> take k applied)
    in keys s' = keys s \<and> users s' = users s
       \<and> prices s' = fold upsert_price stored (prices s)
       \<and> (\<forall>v. findOne (\<lambda>p. p_validityDays p = v) (prices s') =
                (case filter (\<lambda>oper. op_validityDays oper = v) stored of
                   [] \<Rightarrow> findOne (\<lambda>p. p_validityDays p = v) (prices s)
                 | oper # opers \<Rightarrow> Some \<lparr>p_validityDays = v, p_price = op_price (last (oper # opers))\<rparr>))
       \<and> rep = (if fate = Answers \<or> (fate \<noteq> Unconnected \<and> applied = [])
                then \<lparr>success = True, message = ''Prices updated successfully.''\<rparr>
                else \<lparr>success = False, message = ''Database error while updating prices.''\<rparr>)
       \<and> (\<forall>entry\<in>set formData.
             (parseFloat (snd entry) = NaN \<or> js_less (parseFloat (snd entry)) (Num 0))
             \<longrightarrow> valid_price_entry parseInt parseFloat entry = None))"
proof -
  let ?applied = "List.map_filter (valid_price_entry parseInt parseFloat) formData"
  let ?stored = "case fate of Answers \<Rightarrow> ?applied | Unconnected \<Rightarrow> [] | Fails k \<Rightarrow> take k ?applied"
  let ?r = "updateAllPrices parseInt parseFloat fate formData s"
  have p: "prices (fst ?r) = fold upsert_price ?stored (prices s)"
    by (cases fate)
       (simp_all add: updateAllPrices_def Let_def collect_operations_map_filter bulkWrite_def)
  have r: "snd ?r = (if fate = Answers \<or> (fate \<noteq> Unconnected \<and> ?applied = [])
                then \<lparr>success = True, message = ''Prices updated successfully.''\<rparr>
                else \<lparr>success = False, message = ''Database error while updating prices.''\<rparr>)"
    by (cases fate)
       (simp_all add: updateAllPrices_def Let_def collect_operations_map_filter bulkWrite_def)
  have k: "keys (fst ?r) = keys s" and u: "users (fst ?r) = users s"
    by (cases fate; simp add: updateAllPrices_def Let_def bulkWrite_def)+
  have skip: "\<forall>entry\<in>set formData.
             (parseFloat (snd entry) = NaN \<or> js_less (parseFloat (snd entry)) (Num 0))
             \<longrightarrow> valid_price_entry parseInt parseFloat entry = None"
    by (auto simp: valid_price_entry_def Let_def)
  show ?thesis
    using p r k u skip by (simp add: Let_def case_prod_beta findOne_fold_upsert_price)
qed

text \<open>
  A form with a negative price, a non-numeric price, a foreign field and two prices for
  the 30-day tier: answered by the store; with the bulk write failing after its first
  operation; without a connection.
\<close>

theorem updateAllPrices_partial_success_witness:
  "sample_parseFloat ''-2'' = Num (- 2)
   \<and> sample_parseFloat ''abc'' = NaN
   \<and> valid_price_entry sample_parseInt sample_parseFloat (''price-7'', ''-2'') = None
   \<and> valid_price_entry sample_parseInt sample_parseFloat (''price-7'', ''abc'') = None
   \<and> updateAllPrices sample_parseInt sample_parseFloat Answers
        [(''price-30'', ''5''), (''price-7'', ''-2''), (''price-7'', ''abc''), (''note'', ''1''),
         (''price-30'', ''3''), (''price-365'', ''40'')] sample_db
     = (sample_db\<lparr>prices := [\<lparr>p_validityDays = Num 30, p_price = Num 3\<rparr>,
                              \<lparr>p_validityDays = Num 365, p_price = Num 40\<rparr>]\<rparr>,
        \<lparr>success = True, message = ''Prices updated successfully.''\<rparr>)
   \<and> updateAllPrices sample_parseInt sample_parseFloat (Fails 1)
        [(''price-30'', ''5''), (''price-7'', ''-2''), (''price-7'', ''abc''), (''note'', ''1''),
         (''price-30'', ''3''), (''price-365'', ''40'')] sample_db
     = (sample_db\<lparr>prices := [\<lparr>p_validityDays = Num 30, p_price = Num 5\<rparr>]\<rparr>,
        \<lparr>success = False, message = ''Database error while updating prices.''\<rparr>)
   \<and> updateAllPrices sample_parseInt sample_parseFloat Unconnected
        [(''price-30'', ''5''), (''price-7'', ''-2''), (''price-7'', ''abc''), (''note'', ''1''),
         (''price-30'', ''3''), (''price-365'', ''40'')] sample_db
     = (sample_db, \<lparr>success = False, message = ''Database error while updating prices.''\<rparr>)"
proof -
  note t = updateAllPrices_partial_success [of sample_parseInt sample_parseFloat Answers
      "[(''price-30'', ''5''), (''price-7'', ''-2''), (''price-7'', ''abc''), (''note'', ''1''),
         (''price-30'', ''3''), (''price-365'', ''40'')]" sample_db]
  have v: "valid_price_entry sample_parseInt sample_parseFloat (''price-7'', ''-2'') = None"
    "valid_price_entry sample_parseInt sample_parseFloat (''price-7'', ''abc'') = None"
    using t by (simp_all add: Let_def case_prod_beta sample_parseFloat_def digits_value_def)
  have e: "updateAllPrices sample_parseInt sample_parseFloat Answers
        [(''price-30'', ''5''), (''price-7'', ''-2''), (''price-7'', ''abc''), (''note'', ''1''),
         (''price-30'', ''3''), (''price-365'', ''40'')] sample_db
     = (sample_db\<lparr>prices := [\<lparr>p_validityDays = Num 30, p_price = Num 3\<rparr>,
                              \<lparr>p_validityDays = Num 365, p_price = Num 40\<rparr>]\<rparr>,
        \<lparr>success = True, message = ''Prices updated successfully.''\<rparr>)"
    by (simp add: updateAllPrices_def Let_def startsWith_def bulkWrite_def upsert_price_def isNaN_def
      findOne_def sample_db_def sample_parseInt_def sample_parseFloat_def digits_value_def)
  have e1: "updateAllPrices sample_parseInt sample_parseFloat (Fails 1)
        [(''price-30'', ''5''), (''price-7'', ''-2''), (''price-7'', ''abc''), (''note'', ''1''),
         (''price-30'', ''3''), (''price-365'', ''40'')] sample_db
     = (sample_db\<lparr>prices := [\<lparr>p_validityDays = Num 30, p_price = Num 5\<rparr>]\<rparr>,
        \<lparr>success = False, message = ''Database error while updating prices.''\<rparr>)"
    by (simp add: updateAllPrices_def Let_def startsWith_def bulkWrite_def upsert_price_def isNaN_def
      findOne_def sample_db_def sample_parseInt_def sample_parseFloat_def digits_value_def)
  have e2: "updateAllPrices sample_parseInt sample_parseFloat Unconnected
        [(''price-30'', ''5''), (''price-7'', ''-2''), (''price-7'', ''abc''), (''note'', ''1''),
         (''price-30'', ''3''), (''price-365'', ''40'')] sample_db
     = (sample_db, \<lparr>success = False, message = ''Database error while updating prices.''\<rparr>)"
    by (simp add: updateAllPrices_def)
  have f: "sample_parseFloat ''-2'' = Num (- 2)" "sample_parseFloat ''abc'' = NaN"
    by (simp_all add: sample_parseFloat_def digits_value_def)
  show ?thesis
    using v e e1 e2 f by simp
qed

text \<open>
  The reply carries no count: a form that applies one entry and a form that applies two
  are answered with the same reply, so the reply does not tell the count applied.
\<close>

theorem updateAllPrices_no_count_counterexample:
  "updateAllPrices sample_parseInt sample_parseFloat Answers [(''price-30'', ''5'')] sample_db
     = (sample_db\<lparr>prices := [\<lparr>p_validityDays = Num 30, p_price = Num 5\<rparr>]\<rparr>,
        \<lparr>success = True, message = ''Prices updated successfully.''\<rparr>)
   \<and> updateAllPrices sample_parseInt sample_parseFloat Answers
        [(''price-30'', ''5''), (''price-7'', ''2'')] sample_db
     = (sample_db\<lparr>prices := [\<lparr>p_validityDays = Num 30, p_price = Num 5\<rparr>,
                              \<lparr>p_validityDays = Num 7, p_price = Num 2\<rparr>]\<rparr>,
        \<lparr>success = True, message = ''Prices updated successfully.''\<rparr>)"
  by (simp add: updateAllPrices_def Let_def startsWith_def bulkWrite_def upsert_price_def isNaN_def
      findOne_def sample_db_def sample_parseInt_def sample_parseFloat_def digits_value_def)

section \<open>Deletion\<close>

text \<open>
  C8. \<open>deleteKeysByPrefix\<close> keeps exactly the key records whose \<open>prefix\<close> field
  differs from the given string, in their order, and touches nothing else; the reply is a
  success whose text starts with the number of records removed, also when that number is
  0, in which case the store is unchanged.
\<close>

theorem deleteKeysByPrefix_exact:
  "(let (s', rep) = deleteKeysByPrefix pfx s;
        n = length (filter (\<lambda>k. k_prefix k = pfx) (keys s))
    in keys s' = filter (\<lambda>k. k_prefix k \<noteq> pfx) (keys s)
       \<and> users s' = users s \<and> prices s' = prices s
       \<and> length (keys s') + n = length (keys s)
       \<and> rep = \<lparr>success = True,
                 message = string_of_nat n @ '' keys with prefix '' @ [CHR 0x22] @ pfx @ [CHR 0x22]
                           @ '' deleted.''\<rparr>
       \<and> (n = 0 \<longrightarrow>
            s' = s
            \<and> rep = \<lparr>success = True,
                      message = ''0 keys with prefix '' @ [CHR 0x22] @ pfx @ [CHR 0x22] @ '' deleted.''\<rparr>))"
proof -
  have len: "length (filter (\<lambda>k. k_prefix k \<noteq> pfx) (keys s))
               + length (filter (\<lambda>k. k_prefix k = pfx) (keys s)) = length (keys s)"
    using sum_length_filter_compl [of "\<lambda>k. k_prefix k = pfx" "keys s"] by simp
  have zero: "string_of_nat 0 = ''0''"
    by (simp add: string_of_nat.simps)
  have same: "filter (\<lambda>k. k_prefix k = pfx) (keys s) = [] \<Longrightarrow> filter (\<lambda>k. k_prefix k \<noteq> pfx) (keys s) = keys s"
    by (simp add: filter_empty_conv filter_id_conv)
  show ?thesis
    using len by (auto simp: deleteKeysByPrefix_def deleteMany_def Let_def zero same)
qed

text \<open>
  Prefix \<open>ABC\<close> removes the two \<open>ABC\<close> keys and neither \<open>ABCD\<close> nor \<open>AB\<close>;
  prefix \<open>A\<close> matches nothing and is answered with a success.
\<close>

theorem deleteKeysByPrefix_exact_witness:
  "deleteKeysByPrefix ''ABC'' prefix_db
     = (prefix_db\<lparr>keys := [trial_key\<lparr>k_key := ''ABCD-02'', k_prefix := ''ABCD'', k_createdBy := ''alice''\<rparr>,
                            trial_key\<lparr>k_key := ''AB-03'', k_prefix := ''AB'', k_createdBy := ''bob''\<rparr>]\<rparr>,
        \<lparr>success = True,
         message = ''2 keys with prefix '' @ [CHR 0x22] @ ''ABC'' @ [CHR 0x22] @ '' deleted.''\<rparr>)
   \<and> length (filter (\<lambda>k. k_prefix k = ''A'') (keys prefix_db)) = 0
   \<and> deleteKeysByPrefix ''A'' prefix_db
     = (prefix_db,
        \<lparr>success = True,
         message = ''0 keys with prefix '' @ [CHR 0x22] @ ''A'' @ [CHR 0x22] @ '' deleted.''\<rparr>)"
proof -
  have n: "length (filter (\<lambda>k. k_prefix k = ''A'') (keys prefix_db)) = 0"
    by (simp add: prefix_db_def)
  have two: "string_of_nat (Suc (Suc 0)) = ''2''"
    by (simp add: string_of_nat.simps)
  have a: "deleteKeysByPrefix ''A'' prefix_db
     = (prefix_db,
        \<lparr>success = True,
         message = ''0 keys with prefix '' @ [CHR 0x22] @ ''A'' @ [CHR 0x22] @ '' deleted.''\<rparr>)"
    using deleteKeysByPrefix_exact [of "''A''" prefix_db] n
    by (simp add: Let_def case_prod_beta prod_eq_iff string_of_nat.simps)
  have b: "deleteKeysByPrefix ''ABC'' prefix_db
     = (prefix_db\<lparr>keys := [trial_key\<lparr>k_key := ''ABCD-02'', k_prefix := ''ABCD'', k_createdBy := ''alice''\<rparr>,
                            trial_key\<lparr>k_key := ''AB-03'', k_prefix := ''AB'', k_createdBy := ''bob''\<rparr>]\<rparr>,
        \<lparr>success = True,
         message = ''2 keys with prefix '' @ [CHR 0x22] @ ''ABC'' @ [CHR 0x22] @ '' deleted.''\<rparr>)"
    by (simp add: deleteKeysByPrefix_def deleteMany_def prefix_db_def two)
  show ?thesis
    using a b n by simp
qed

text \<open>
  C9. With unique account ids, deleting a stored moderator succeeds, removes the
  moderator's record and no other account, removes every key whose \<open>createdBy\<close> is the
  moderator's username, and keeps every other key as it is.
\<close>

theorem deleteModerator_cascade:
  assumes "distinct (map u_id (users s))" and "m \<in> set (users s)"
  shows "(let (s', rep) = deleteModerator (u_id m) s
          in success rep
             \<and> users s' = filter (\<lambda>u. u_id u \<noteq> u_id m) (users s)
             \<and> m \<notin> set (users s')
             \<and> keys s' = filter (\<lambda>k. k_createdBy k \<noteq> u_username m) (keys s)
             \<and> (\<forall>k\<in>set (keys s). k_createdBy k = u_username m \<longrightarrow> k \<notin> set (keys s'))
             \<and> (\<forall>k\<in>set (keys s). k_createdBy k \<noteq> u_username m \<longrightarrow> k \<in> set (keys s'))
             \<and> prices s' = prices s)"
proof -
  have f: "findOne (\<lambda>u. u_id u = u_id m) (users s) = Some m"
    using assms by (simp add: findOne_def find_distinct)
  have r: "remove_first (\<lambda>u. u_id u = u_id m) (users s) = filter (\<lambda>u. u_id u \<noteq> u_id m) (users s)"
    using assms(1) by (rule remove_first_distinct)
  show ?thesis
    using f r by (simp add: deleteModerator_def deleteOne_def deleteMany_def Let_def)
qed

theorem deleteModerator_cascade_witness:
  "distinct (map u_id (users prefix_db))
   \<and> bob \<in> set (users prefix_db)
   \<and> deleteModerator (u_id bob) prefix_db
     = (prefix_db\<lparr>keys := [trial_key\<lparr>k_key := ''ABCD-02'', k_prefix := ''ABCD'', k_createdBy := ''alice''\<rparr>,
                            trial_key\<lparr>k_key := ''ABC-04'', k_prefix := ''ABC''\<rparr>],
                   users := [alice]\<rparr>,
        \<lparr>success = True,
         message = ''Moderator '' @ [CHR 0x22] @ ''bob'' @ [CHR 0x22]
                   @ '' and all their keys have been deleted.''\<rparr>)"
proof -
  have h1: "distinct (map u_id (users prefix_db))"
    by (simp add: prefix_db_def bob_def alice_def)
  have h2: "bob \<in> set (users prefix_db)"
    by (simp add: prefix_db_def)
  note t = deleteModerator_cascade [OF h1 h2]
  have e: "deleteModerator (u_id bob) prefix_db
     = (prefix_db\<lparr>keys := [trial_key\<lparr>k_key := ''ABCD-02'', k_prefix := ''ABCD'', k_createdBy := ''alice''\<rparr>,
                            trial_key\<lparr>k_key := ''ABC-04'', k_prefix := ''ABC''\<rparr>],
                   users := [alice]\<rparr>,
        \<lparr>success = True,
         message = ''Moderator '' @ [CHR 0x22] @ ''bob'' @ [CHR 0x22]
                   @ '' and all their keys have been deleted.''\<rparr>)"
    by (simp add: deleteModerator_def deleteOne_def deleteMany_def findOne_def Let_def
        prefix_db_def bob_def alice_def trial_key_def)
  show ?thesis
    using t h1 h2 e by simp
qed

end
